theory Spec2Isabelle
  imports Main
begin

section \<open>Data model\<close>

text \<open>
  Values that travel in payloads and JSON bodies. A payload field is a string, a number,
  a boolean, null, a binary blob (a Buffer, as its bytes), a binary stream (a read stream,
  as the path it reads), an array or a nested object. Numbers are kept as integers: no
  operation below looks inside one.
\<close>

datatype AnyJson =
    VNull
  | VBool bool
  | VNumber int
  | VString string
  | VBlob "nat list"
  | VStream string
  | VArray "AnyJson list"
  | VObject "(string \<times> AnyJson) list"

text \<open>\<open>InvokeBody\<close>: a payload mapping, field name to value, in field order.\<close>

type_synonym InvokeBody = "(string \<times> AnyJson) list"

record Credentials =
  accessToken :: string
  refreshToken :: "string option"
  expiresAt :: int
  tokenType :: string
  grantedScope :: "string list"

text \<open>
  \<open>ApiConfiguration\<close>: \<open>scope\<close> is optional in the source
  (\<^verbatim>\<open>!configuration.scope || configuration.scope.length === 0\<close>). The two hosts
  live in the process environment, not in this record.
\<close>

record ApiConfiguration =
  clientId :: string
  clientSecret :: string
  redirectUri :: string
  scope :: "string list option"

text \<open>\<^verbatim>\<open>process.env\<close>, restricted to the two variables the class reads and writes.\<close>

record Env =
  PAXFUL_OAUTH_HOST :: "string option"
  PAXFUL_DATA_HOST :: "string option"

datatype Profile = Profile AnyJson

datatype Error =
    AuthExchangeError
  | AuthRefreshError
  | NotAuthenticatedError
  | AuthorizationDeniedError
  | ResponseParseError
  | TransportError
  | BuilderConflictError
  | JsError string

subsection \<open>Credential storage\<close>

text \<open>
  Modelled from the spec: the \<open>CredentialStorage\<close> collaborator (declared in
  \<^verbatim>\<open>./oauth\<close>, which is not among the sources), by its contract
  \<^verbatim>\<open>saveCredentials(Credentials) -> void\<close>, \<^verbatim>\<open>loadCredentials() -> Credentials | absent\<close>.
  The storage holds the credentials saved last and the list of every
  \<open>saveCredentials\<close> call it received, oldest first.
\<close>

record CredentialStorage =
  contents :: "Credentials option"
  saveCalls :: "Credentials list"

definition saveCredentials :: "Credentials \<Rightarrow> CredentialStorage \<Rightarrow> CredentialStorage" where
  "saveCredentials c s = s\<lparr>contents := Some c, saveCalls := saveCalls s @ [c]\<rparr>"

definition loadCredentials :: "CredentialStorage \<Rightarrow> Credentials option" where
  "loadCredentials s = contents s"

subsection \<open>Request builder\<close>

datatype AcceptKind = AcceptJson | AcceptBinary

datatype BodyKind = BodyNone | BodyJson | BodyForm | BodyMultipart

text \<open>
  Modelled from the spec: the \<open>RequestBuilder\<close> class of \<^verbatim>\<open>./commands/Invoke\<close>
  (not among the sources). Its accumulated state is the spec's \<open>RequestSpec\<close>
  \<^verbatim>\<open>{ url, method, acceptKind, bodyKind, body, urlParams }\<close>. The method, field
  \<open>httpMethod\<close>, is the string the
  facade passes. A body-encoding operation records its encoding and its argument; the last
  one called wins. A fresh builder has no body and no url parameters; its method and
  accept kind are overwritten by every verb of the facade before the request is used.
\<close>

record RequestSpec =
  url :: string
  httpMethod :: string
  acceptKind :: AcceptKind
  bodyKind :: BodyKind
  body :: "AnyJson option"
  urlParams :: InvokeBody

definition RequestBuilder :: "string \<Rightarrow> RequestSpec" where
  "RequestBuilder u =
     \<lparr>url = u, httpMethod = ''GET'', acceptKind = AcceptJson, bodyKind = BodyNone,
      body = None, urlParams = []\<rparr>"

definition withMethod :: "string \<Rightarrow> RequestSpec \<Rightarrow> RequestSpec" where
  "withMethod m rb = rb\<lparr>httpMethod := m\<rparr>"

definition acceptJson :: "RequestSpec \<Rightarrow> RequestSpec" where
  "acceptJson rb = rb\<lparr>acceptKind := AcceptJson\<rparr>"

definition acceptBinary :: "RequestSpec \<Rightarrow> RequestSpec" where
  "acceptBinary rb = rb\<lparr>acceptKind := AcceptBinary\<rparr>"

definition withUrlParams :: "InvokeBody \<Rightarrow> RequestSpec \<Rightarrow> RequestSpec" where
  "withUrlParams ps rb = rb\<lparr>urlParams := ps\<rparr>"

definition withJsonData :: "AnyJson option \<Rightarrow> RequestSpec \<Rightarrow> RequestSpec" where
  "withJsonData json rb = rb\<lparr>bodyKind := BodyJson, body := json\<rparr>"

definition withFormData :: "InvokeBody \<Rightarrow> RequestSpec \<Rightarrow> RequestSpec" where
  "withFormData pl rb = rb\<lparr>bodyKind := BodyForm, body := Some (VObject pl)\<rparr>"

definition withMultipartFormData :: "InvokeBody \<Rightarrow> RequestSpec \<Rightarrow> RequestSpec" where
  "withMultipartFormData pl rb = rb\<lparr>bodyKind := BodyMultipart, body := Some (VObject pl)\<rparr>"

text \<open>
  Modelled from the spec: \<open>containsBinary\<close> of \<^verbatim>\<open>./commands/Invoke\<close> (not among the
  sources): true iff any value of the payload mapping is a binary blob or stream, looking
  at the top-level field values only.
\<close>

fun isBinary :: "AnyJson \<Rightarrow> bool" where
  "isBinary (VBlob bs) = True"
| "isBinary (VStream src) = True"
| "isBinary v = False"

definition containsBinary :: "InvokeBody \<Rightarrow> bool" where
  "containsBinary pl = list_ex (\<lambda>(k, v). isBinary v) pl"

fun isString :: "AnyJson \<Rightarrow> bool" where
  "isString (VString s) = True"
| "isString v = False"

fun isNumber :: "AnyJson \<Rightarrow> bool" where
  "isNumber (VNumber n) = True"
| "isNumber v = False"

subsection \<open>The world outside the class\<close>

text \<open>
  A reply of the data host to one dispatched request: the host could not be reached, or it
  answered with a status and a raw body.
\<close>

datatype HostReply = Unreachable | Reply nat string

text \<open>
  What the executor does on the network, in order: a refresh call to the Token Acquirer
  (with the credentials presented), or the dispatch of a request with a bearer token.
\<close>

datatype Event = Refresh Credentials | Dispatch RequestSpec string

datatype Response = JsonResponse nat AnyJson | BinaryResponse nat string

text \<open>
  The collaborators that are not among the sources are parameters of the model, fields of
  the world a call runs in: the Token Acquirer (\<open>retrieveImpersonatedCredentials\<close> and
  \<open>retrievePersonalCredentials\<close> of \<^verbatim>\<open>./commands\<close>, and the spec's \<open>refresh\<close>), each
  by the outcome of its exchange; the data host, which answers a dispatch knowing
  everything that happened before it; the JSON parser. \<open>env\<close> is \<^verbatim>\<open>process.env\<close>,
  \<open>now\<close> the clock, \<open>trace\<close> the events so far, oldest first.
\<close>

record World =
  env :: Env
  now :: int
  retrieveImpersonatedCredentials :: "ApiConfiguration \<Rightarrow> string \<Rightarrow> Error + Credentials"
  retrievePersonalCredentials :: "ApiConfiguration \<Rightarrow> Error + Credentials"
  refresh :: "ApiConfiguration \<Rightarrow> Credentials \<Rightarrow> Error + Credentials"
  dataHost :: "Event list \<Rightarrow> RequestSpec \<Rightarrow> string \<Rightarrow> HostReply"
  parseJson :: "string \<Rightarrow> AnyJson option"
  trace :: "Event list"

text \<open>
  The result of a call that goes through the executor: the settled promise (an error or
  a response), the credential storage as the call leaves it, and the world after it.
\<close>

type_synonym AnyPromise = "(Error + Response) \<times> CredentialStorage option \<times> World"

subsection \<open>Authenticated executor\<close>

text \<open>
  Modelled from the spec: \<open>executeRequestAuthorized\<close> of \<^verbatim>\<open>./commands\<close> (not among the
  sources), by the algorithm of spec 4.3.
  Step 1: the credentials are read from the storage, if one was provided and is populated;
  with none, the call fails with \<open>NotAuthenticatedError\<close>.
  Step 2: credentials with \<open>expiresAt <= now\<close> are refreshed; the new ones are persisted
  in the storage; a failed refresh propagates.
  Step 3: the request is dispatched with the access token as bearer token.
  Step 4: on a 401 or 403, when no refresh was attempted yet in this call, step 2's refresh
  is performed and the dispatch retried once; an authorization failure of a dispatch that
  follows a refresh is terminal, \<open>AuthorizationDeniedError\<close>.
  Step 5: the body is parsed as JSON (\<open>ResponseParseError\<close> when malformed) or returned
  raw, by \<open>acceptKind\<close>.
  Step 6: an unreachable host is a \<open>TransportError\<close>, not retried.
\<close>

definition resolveCredentials :: "CredentialStorage option \<Rightarrow> Credentials option" where
  "resolveCredentials storage =
     (case storage of None \<Rightarrow> None | Some st \<Rightarrow> loadCredentials st)"

definition refreshAndPersist ::
  "ApiConfiguration \<Rightarrow> Credentials \<Rightarrow> CredentialStorage option \<Rightarrow> World
    \<Rightarrow> (Error + Credentials) \<times> CredentialStorage option \<times> World" where
  "refreshAndPersist config c storage w =
     (let w' = w\<lparr>trace := trace w @ [Refresh c]\<rparr>
      in case refresh w config c of
           Inl e \<Rightarrow> (Inl e, storage, w')
         | Inr c' \<Rightarrow> (Inr c', map_option (saveCredentials c') storage, w'))"

definition dispatch :: "RequestSpec \<Rightarrow> Credentials \<Rightarrow> World \<Rightarrow> HostReply \<times> World" where
  "dispatch req c w =
     (dataHost w (trace w) req (accessToken c),
      w\<lparr>trace := trace w @ [Dispatch req (accessToken c)]\<rparr>)"

definition isAuthFailure :: "nat \<Rightarrow> bool" where
  "isAuthFailure status = (status = 401 \<or> status = 403)"

definition parseResponse :: "World \<Rightarrow> RequestSpec \<Rightarrow> nat \<Rightarrow> string \<Rightarrow> Error + Response" where
  "parseResponse w req status raw =
     (case acceptKind req of
        AcceptJson \<Rightarrow>
          (case parseJson w raw of
             None \<Rightarrow> Inl ResponseParseError
           | Some j \<Rightarrow> Inr (JsonResponse status j))
      | AcceptBinary \<Rightarrow> Inr (BinaryResponse status raw))"

text \<open>A dispatch that follows a refresh: an authorization failure is terminal.\<close>

definition dispatchFinal ::
  "RequestSpec \<Rightarrow> Credentials \<Rightarrow> CredentialStorage option \<Rightarrow> World \<Rightarrow> AnyPromise" where
  "dispatchFinal req c storage w =
     (case dispatch req c w of
        (Unreachable, w') \<Rightarrow> (Inl TransportError, storage, w')
      | (Reply status raw, w') \<Rightarrow>
          if isAuthFailure status then (Inl AuthorizationDeniedError, storage, w')
          else (parseResponse w' req status raw, storage, w'))"

definition refreshThenDispatch ::
  "RequestSpec \<Rightarrow> ApiConfiguration \<Rightarrow> Credentials \<Rightarrow> CredentialStorage option \<Rightarrow> World
    \<Rightarrow> AnyPromise" where
  "refreshThenDispatch req config c storage w =
     (case refreshAndPersist config c storage w of
        (Inl e, storage', w') \<Rightarrow> (Inl e, storage', w')
      | (Inr c', storage', w') \<Rightarrow> dispatchFinal req c' storage' w')"

definition executeRequestAuthorized ::
  "RequestSpec \<Rightarrow> ApiConfiguration \<Rightarrow> CredentialStorage option \<Rightarrow> World \<Rightarrow> AnyPromise" where
  "executeRequestAuthorized req config storage w =
     (case resolveCredentials storage of
        None \<Rightarrow> (Inl NotAuthenticatedError, storage, w)
      | Some c \<Rightarrow>
          if expiresAt c \<le> now w then refreshThenDispatch req config c storage w
          else
            (case dispatch req c w of
               (Unreachable, w') \<Rightarrow> (Inl TransportError, storage, w')
             | (Reply status raw, w') \<Rightarrow>
                 if isAuthFailure status then refreshThenDispatch req config c storage w'
                 else (parseResponse w' req status raw, storage, w')))"

section \<open>The PaxfulApi class\<close>

record PaxfulApi =
  apiConfiguration :: ApiConfiguration
  credentialStorage :: "CredentialStorage option"

text \<open>
  \<^verbatim>\<open>!x\<close> for an environment variable: it is falsy when unset and when the empty string.
\<close>

definition falsy :: "string option \<Rightarrow> bool" where
  "falsy x = (case x of None \<Rightarrow> True | Some s \<Rightarrow> s = [])"

text \<open>\<^verbatim>\<open>x ?? d\<close>: the default only when the variable is unset.\<close>

definition nullish :: "string option \<Rightarrow> string \<Rightarrow> string" where
  "nullish x d = (case x of None \<Rightarrow> d | Some s \<Rightarrow> s)"

definition validateAndSetDefaultParameters ::
  "ApiConfiguration \<Rightarrow> Env \<Rightarrow> ApiConfiguration \<times> Env" where
  "validateAndSetDefaultParameters configuration e =
     (let defaultOAuthHost = ''https://accounts.paxful.com'';
          defaultDataHost = ''https://api.paxful.com'';
          configuration' =
            (if (case scope configuration of None \<Rightarrow> True | Some sc \<Rightarrow> length sc = 0)
             then configuration\<lparr>scope := Some [''profile'', ''email'']\<rparr>
             else configuration);
          e1 =
            (if PAXFUL_OAUTH_HOST e = Some []
             then e\<lparr>PAXFUL_OAUTH_HOST := Some defaultOAuthHost\<rparr>
             else e\<lparr>PAXFUL_OAUTH_HOST := Some (nullish (PAXFUL_OAUTH_HOST e) defaultOAuthHost)\<rparr>);
          e2 =
            (if PAXFUL_DATA_HOST e1 = Some [] \<or> falsy (PAXFUL_DATA_HOST e1)
             then e1\<lparr>PAXFUL_DATA_HOST := Some defaultDataHost\<rparr>
             else e1\<lparr>PAXFUL_DATA_HOST := Some (nullish (PAXFUL_DATA_HOST e1) defaultDataHost)\<rparr>)
      in (configuration', e2))"

definition constructor ::
  "ApiConfiguration \<Rightarrow> CredentialStorage option \<Rightarrow> World \<Rightarrow> PaxfulApi \<times> World" where
  "constructor configuration storage w =
     (case validateAndSetDefaultParameters configuration (env w) of
        (configuration', e') \<Rightarrow>
          (\<lparr>apiConfiguration = configuration', credentialStorage = storage\<rparr>, w\<lparr>env := e'\<rparr>))"

text \<open>
  \<open>saveToken\<close> receives a promise, here its settled outcome. Awaiting a rejected promise
  throws before \<open>saveCredentials\<close> is called; the promise itself is what is returned.
\<close>

definition saveToken ::
  "PaxfulApi \<Rightarrow> Error + Credentials \<Rightarrow> (Error + Credentials) \<times> CredentialStorage option" where
  "saveToken api credentialsPromise =
     (case credentialStorage api of
        Some st \<Rightarrow>
          (case credentialsPromise of
             Inl e \<Rightarrow> (Inl e, Some st)
           | Inr c \<Rightarrow> (credentialsPromise, Some (saveCredentials c st)))
      | None \<Rightarrow> (credentialsPromise, None))"

definition impersonatedCredentials ::
  "PaxfulApi \<Rightarrow> string \<Rightarrow> World \<Rightarrow> (Error + Credentials) \<times> CredentialStorage option" where
  "impersonatedCredentials api code w =
     saveToken api (retrieveImpersonatedCredentials w (apiConfiguration api) code)"

definition myCredentials ::
  "PaxfulApi \<Rightarrow> World \<Rightarrow> (Error + Credentials) \<times> CredentialStorage option" where
  "myCredentials api w = saveToken api (retrievePersonalCredentials w (apiConfiguration api))"

text \<open>
  \<open>getProfile\<close>: the command of \<^verbatim>\<open>./commands\<close> it delegates to is not among the sources
  and is the parameter \<open>getProfileCommand\<close>.
\<close>

definition getProfile ::
  "(CredentialStorage \<Rightarrow> ApiConfiguration \<Rightarrow> World \<Rightarrow> (Error + Profile) \<times> CredentialStorage \<times> World)
    \<Rightarrow> PaxfulApi \<Rightarrow> World \<Rightarrow> (Error + Profile) \<times> CredentialStorage option \<times> World" where
  "getProfile getProfileCommand api w =
     (case credentialStorage api of
        None \<Rightarrow> (Inl (JsError ''No credentials storage defined.''), None, w)
      | Some st \<Rightarrow>
          (case getProfileCommand st (apiConfiguration api) w of
             (r, st', w') \<Rightarrow> (r, Some st', w')))"

text \<open>
  The template \<^verbatim>\<open>${process.env.PAXFUL_DATA_HOST}${url}\<close>: an unset variable renders as
  the text \<open>undefined\<close>.
\<close>

definition dataHostUrl :: "World \<Rightarrow> string \<Rightarrow> string" where
  "dataHostUrl w u =
     (case PAXFUL_DATA_HOST (env w) of None \<Rightarrow> ''undefined'' | Some h \<Rightarrow> h) @ u"

text \<open>\<^verbatim>\<open>String.prototype.endsWith\<close>.\<close>

definition endsWith :: "string \<Rightarrow> string \<Rightarrow> bool" where
  "endsWith s suf = (length suf \<le> length s \<and> drop (length s - length suf) s = suf)"

text \<open>A default parameter value applies when the argument is left out.\<close>

definition upload :: "PaxfulApi \<Rightarrow> string \<Rightarrow> InvokeBody \<Rightarrow> string option \<Rightarrow> World \<Rightarrow> AnyPromise" where
  "upload api u pl m w =
     executeRequestAuthorized
       (withMultipartFormData pl
         (withMethod (case m of None \<Rightarrow> ''POST'' | Some x \<Rightarrow> x)
           (acceptJson (RequestBuilder (dataHostUrl w u)))))
       (apiConfiguration api) (credentialStorage api) w"

text \<open>
  \<open>invoke\<close>: a payload, when given, is an object and so truthy, also when it has no
  fields.
\<close>

definition invoke :: "PaxfulApi \<Rightarrow> string \<Rightarrow> InvokeBody option \<Rightarrow> World \<Rightarrow> AnyPromise" where
  "invoke api u payload w =
     (case (case payload of
              None \<Rightarrow> None
            | Some pl \<Rightarrow> if containsBinary pl then Some pl else None) of
        Some pl \<Rightarrow> upload api u pl None w
      | None \<Rightarrow>
          (let rb0 = withMethod ''POST'' (acceptJson (RequestBuilder (dataHostUrl w u)));
               rb1 = (case payload of None \<Rightarrow> rb0 | Some pl \<Rightarrow> withFormData pl rb0);
               rb2 = (if endsWith u ''currency/btc'' then withMethod ''GET'' rb1 else rb1)
           in executeRequestAuthorized rb2 (apiConfiguration api) (credentialStorage api) w))"

definition download :: "PaxfulApi \<Rightarrow> string \<Rightarrow> string option \<Rightarrow> World \<Rightarrow> AnyPromise" where
  "download api u m w =
     executeRequestAuthorized
       (withMethod (case m of None \<Rightarrow> ''GET'' | Some x \<Rightarrow> x)
         (acceptBinary (RequestBuilder (dataHostUrl w u))))
       (apiConfiguration api) (credentialStorage api) w"

definition get :: "PaxfulApi \<Rightarrow> string \<Rightarrow> InvokeBody option \<Rightarrow> World \<Rightarrow> AnyPromise" where
  "get api u params w =
     executeRequestAuthorized
       (withUrlParams (case params of None \<Rightarrow> [] | Some ps \<Rightarrow> ps)
         (withMethod ''GET'' (acceptJson (RequestBuilder (dataHostUrl w u)))))
       (apiConfiguration api) (credentialStorage api) w"

definition invokeJsonMethod ::
  "PaxfulApi \<Rightarrow> string \<Rightarrow> string \<Rightarrow> AnyJson option \<Rightarrow> World \<Rightarrow> AnyPromise" where
  "invokeJsonMethod api u m json w =
     executeRequestAuthorized
       (withJsonData json (withMethod m (acceptJson (RequestBuilder (dataHostUrl w u)))))
       (apiConfiguration api) (credentialStorage api) w"

definition post :: "PaxfulApi \<Rightarrow> string \<Rightarrow> AnyJson option \<Rightarrow> World \<Rightarrow> AnyPromise" where
  "post api u json w = invokeJsonMethod api u ''POST'' json w"

definition delete :: "PaxfulApi \<Rightarrow> string \<Rightarrow> AnyJson option \<Rightarrow> World \<Rightarrow> AnyPromise" where
  "delete api u json w = invokeJsonMethod api u ''DELETE'' json w"

definition put :: "PaxfulApi \<Rightarrow> string \<Rightarrow> AnyJson option \<Rightarrow> World \<Rightarrow> AnyPromise" where
  "put api u json w = invokeJsonMethod api u ''PUT'' json w"

definition patch :: "PaxfulApi \<Rightarrow> string \<Rightarrow> AnyJson option \<Rightarrow> World \<Rightarrow> AnyPromise" where
  "patch api u json w = invokeJsonMethod api u ''PATCH'' json w"

section \<open>Reading a trace; example values\<close>

definition dispatched :: "World \<Rightarrow> (RequestSpec \<times> string) list" where
  "dispatched w = concat (map (\<lambda>ev. case ev of Dispatch req tok \<Rightarrow> [(req, tok)] | Refresh c \<Rightarrow> []) (trace w))"

definition refreshed :: "World \<Rightarrow> Credentials list" where
  "refreshed w = concat (map (\<lambda>ev. case ev of Dispatch req tok \<Rightarrow> [] | Refresh c \<Rightarrow> [c]) (trace w))"

definition exampleConfiguration :: ApiConfiguration where
  "exampleConfiguration =
     \<lparr>clientId = ''client'', clientSecret = ''secret'', redirectUri = ''https://app.example/cb'',
      scope = None\<rparr>"

definition exampleCredentials :: Credentials where
  "exampleCredentials =
     \<lparr>accessToken = ''token-1'', refreshToken = Some ''refresh-1'', expiresAt = 2000,
      tokenType = ''Bearer'', grantedScope = [''profile'', ''email'']\<rparr>"

definition exampleStorage :: CredentialStorage where
  "exampleStorage = \<lparr>contents = Some exampleCredentials, saveCalls = []\<rparr>"

definition exampleApi :: PaxfulApi where
  "exampleApi = \<lparr>apiConfiguration = exampleConfiguration, credentialStorage = Some exampleStorage\<rparr>"

text \<open>
  A world at time 1000. The Token Acquirer accepts the code \<open>good-code\<close> and refreshes
  credentials that carry a refresh token, issuing \<open>token-2\<close>. The data host answers every
  request 200 with an empty JSON object.
\<close>

definition exampleWorld :: World where
  "exampleWorld =
     \<lparr>env = \<lparr>PAXFUL_OAUTH_HOST = Some ''https://accounts.paxful.com'',
              PAXFUL_DATA_HOST = Some ''https://api.paxful.com''\<rparr>,
      now = 1000,
      retrieveImpersonatedCredentials =
        (\<lambda>config code. if code = ''good-code'' then Inr exampleCredentials else Inl AuthExchangeError),
      retrievePersonalCredentials =
        (\<lambda>config. if clientSecret config = ''secret'' then Inr exampleCredentials else Inl AuthExchangeError),
      refresh =
        (\<lambda>config c. case refreshToken c of
            None \<Rightarrow> Inl AuthRefreshError
          | Some rt \<Rightarrow> Inr (c\<lparr>accessToken := ''token-2'', expiresAt := 5000\<rparr>)),
      dataHost = (\<lambda>evs req tok. Reply 200 ''{}''),
      parseJson = (\<lambda>raw. if raw = ''{}'' then Some (VObject []) else None),
      trace = []\<rparr>"

text \<open>The same world with a data host that answers 401 to every request.\<close>

definition denyingWorld :: World where
  "denyingWorld = exampleWorld\<lparr>dataHost := (\<lambda>evs req tok. Reply 401 [])\<rparr>"

text \<open>The same world with a data host that accepts only the refreshed token.\<close>

definition expiringWorld :: World where
  "expiringWorld =
     exampleWorld\<lparr>dataHost := (\<lambda>evs req tok. if tok = ''token-2'' then Reply 200 ''{}'' else Reply 401 [])\<rparr>"

definition exampleRequest :: RequestSpec where
  "exampleRequest = withMethod ''GET'' (acceptJson (RequestBuilder ''https://api.paxful.com/user/me''))"

text \<open>Credentials that were issued without a refresh token, and a storage holding them.\<close>

definition accessOnlyCredentials :: Credentials where
  "accessOnlyCredentials = exampleCredentials\<lparr>refreshToken := None\<rparr>"

definition accessOnlyStorage :: CredentialStorage where
  "accessOnlyStorage = \<lparr>contents = Some accessOnlyCredentials, saveCalls = []\<rparr>"

text \<open>A profile command that answers from the identity endpoint with one dispatch.\<close>

definition exampleProfileCommand ::
  "CredentialStorage \<Rightarrow> ApiConfiguration \<Rightarrow> World \<Rightarrow> (Error + Profile) \<times> CredentialStorage \<times> World" where
  "exampleProfileCommand st config w =
     (Inr (Profile (VObject [(''email'', VString ''a@b.c'')])), st,
      w\<lparr>trace := trace w @ [Dispatch exampleRequest ''token-1'']\<rparr>)"

section \<open>Properties\<close>

subsection \<open>containsBinary\<close>

lemma containsBinary_iff:
  "containsBinary pl \<longleftrightarrow> (\<exists>k v. (k, v) \<in> set pl \<and> isBinary v)"
  by (auto simp: containsBinary_def list_ex_iff)

text \<open>
  C4. \<open>containsBinary\<close> is a predicate of the payload alone that is true if and only if at
  least one top-level value of the mapping is a binary blob or stream. It is false for the
  empty mapping, false for a mapping whose values are all strings and false for one whose
  values are all numbers. It does not look inside a nested object: a field whose value is
  an object is not binary, whatever that object holds.
\<close>

theorem containsBinary_top_level:
  "(containsBinary pl \<longleftrightarrow>
      (\<exists>k v. (k, v) \<in> set pl \<and> ((\<exists>bs. v = VBlob bs) \<or> (\<exists>src. v = VStream src))))
   \<and> \<not> containsBinary []
   \<and> ((\<forall>(k, v) \<in> set pl. isString v) \<longrightarrow> \<not> containsBinary pl)
   \<and> ((\<forall>(k, v) \<in> set pl. isNumber v) \<longrightarrow> \<not> containsBinary pl)
   \<and> containsBinary (pl @ [(k', VObject nested)]) = containsBinary pl
   \<and> containsBinary ((k', VObject nested) # pl) = containsBinary pl"
proof -
  have bin: "isBinary v \<longleftrightarrow> (\<exists>bs. v = VBlob bs) \<or> (\<exists>src. v = VStream src)" for v
    by (cases v) simp_all
  have strs: "isString v \<Longrightarrow> \<not> isBinary v" for v
    by (cases v) simp_all
  have nums: "isNumber v \<Longrightarrow> \<not> isBinary v" for v
    by (cases v) simp_all
  have "containsBinary pl \<longleftrightarrow>
      (\<exists>k v. (k, v) \<in> set pl \<and> ((\<exists>bs. v = VBlob bs) \<or> (\<exists>src. v = VStream src)))"
    unfolding containsBinary_iff bin by (rule refl)
  moreover have "\<not> containsBinary []"
    by (simp add: containsBinary_def)
  moreover have "(\<forall>(k, v) \<in> set pl. isString v) \<longrightarrow> \<not> containsBinary pl"
    unfolding containsBinary_iff using strs by blast
  moreover have "(\<forall>(k, v) \<in> set pl. isNumber v) \<longrightarrow> \<not> containsBinary pl"
    unfolding containsBinary_iff using nums by blast
  moreover have "containsBinary (pl @ [(k', VObject nested)]) = containsBinary pl"
    by (simp add: containsBinary_def)
  moreover have "containsBinary ((k', VObject nested) # pl) = containsBinary pl"
    by (simp add: containsBinary_def)
  ultimately show ?thesis by blast
qed

theorem containsBinary_top_level_witness:
  "containsBinary [(''name'', VString ''doc''), (''file'', VBlob [1, 2, 3])]
   \<and> \<not> containsBinary [(''a'', VString ''x''), (''b'', VString ''y'')]
   \<and> \<not> containsBinary [(''a'', VNumber 1), (''b'', VNumber 2)]
   \<and> \<not> containsBinary [(''outer'', VObject [(''file'', VBlob [1, 2, 3])])]"
  using containsBinary_top_level [of "[(''name'', VString ''doc''), (''file'', VBlob [1, 2, 3])]"]
    containsBinary_top_level [of "[(''a'', VString ''x''), (''b'', VString ''y'')]"]
    containsBinary_top_level [of "[(''a'', VNumber 1), (''b'', VNumber 2)]"]
    containsBinary_top_level [of "[]" "''outer''" "[(''file'', VBlob [1, 2, 3])]"]
  by (simp add: containsBinary_def)

subsection \<open>Routing of invoke\<close>

lemma endsWith_iff: "endsWith s suf \<longleftrightarrow> (\<exists>pre. s = pre @ suf)"
proof
  assume "endsWith s suf"
  then have "s = take (length s - length suf) s @ suf"
    by (metis append_take_drop_id endsWith_def)
  then show "\<exists>pre. s = pre @ suf" ..
next
  assume "\<exists>pre. s = pre @ suf"
  then show "endsWith s suf"
    by (auto simp: endsWith_def)
qed

text \<open>
  C1. For every url and every payload on which \<open>containsBinary\<close> is true, \<open>invoke\<close> is the
  call of \<open>upload\<close> with that url and payload and the default method, and \<open>upload\<close> hands
  the executor a request whose body is the payload in multipart encoding, with JSON
  response parsing and the method given, POST when left out.
\<close>

theorem invoke_binary_is_upload:
  "containsBinary pl \<Longrightarrow>
   invoke api u (Some pl) w = upload api u pl None w
   \<and> upload api u pl m w =
       executeRequestAuthorized
         \<lparr>url = dataHostUrl w u, httpMethod = (case m of None \<Rightarrow> ''POST'' | Some x \<Rightarrow> x),
          acceptKind = AcceptJson, bodyKind = BodyMultipart, body = Some (VObject pl),
          urlParams = []\<rparr>
         (apiConfiguration api) (credentialStorage api) w"
  by (simp add: invoke_def upload_def RequestBuilder_def acceptJson_def withMethod_def
      withMultipartFormData_def)

theorem invoke_binary_is_upload_witness:
  "containsBinary [(''file'', VBlob [80, 75])]
   \<and> map (bodyKind \<circ> fst)
       (dispatched (snd (snd (invoke exampleApi ''/kyc/upload'' (Some [(''file'', VBlob [80, 75])]) exampleWorld))))
     = [BodyMultipart]"
proof -
  have bin: "containsBinary [(''file'', VBlob [80, 75])]"
    by (simp add: containsBinary_def)
  show ?thesis
    using bin invoke_binary_is_upload [OF bin, of exampleApi "''/kyc/upload''" exampleWorld None]
    by (simp add: executeRequestAuthorized_def resolveCredentials_def loadCredentials_def
        exampleApi_def exampleStorage_def exampleCredentials_def exampleWorld_def
        dispatch_def isAuthFailure_def dispatched_def)
qed


text \<open>
  C2, as the code has it. For every url and every payload on which \<open>containsBinary\<close> is
  false, \<open>invoke\<close> hands the executor a request with JSON response parsing whose body is
  the payload in URL-form encoding (\<open>withFormData\<close>), not JSON; its method is POST unless
  the url ends with \<open>currency/btc\<close>, where it is GET.
\<close>

theorem invoke_form_post:
  "\<not> containsBinary pl \<Longrightarrow>
   invoke api u (Some pl) w =
     executeRequestAuthorized
       \<lparr>url = dataHostUrl w u,
        httpMethod = (if endsWith u ''currency/btc'' then ''GET'' else ''POST''),
        acceptKind = AcceptJson, bodyKind = BodyForm, body = Some (VObject pl), urlParams = []\<rparr>
       (apiConfiguration api) (credentialStorage api) w"
  by (simp add: invoke_def RequestBuilder_def acceptJson_def withMethod_def withFormData_def)

theorem invoke_form_post_witness:
  "\<not> containsBinary [(''amount'', VNumber 5)]
   \<and> map fst (dispatched (snd (snd (invoke exampleApi ''/offer/create'' (Some [(''amount'', VNumber 5)]) exampleWorld))))
     = [\<lparr>url = ''https://api.paxful.com/offer/create'', httpMethod = ''POST'', acceptKind = AcceptJson,
         bodyKind = BodyForm, body = Some (VObject [(''amount'', VNumber 5)]), urlParams = []\<rparr>]"
proof -
  have nobin: "\<not> containsBinary [(''amount'', VNumber 5)]"
    by (simp add: containsBinary_def)
  show ?thesis
    using nobin invoke_form_post [OF nobin, of exampleApi "''/offer/create''" exampleWorld]
    by (simp add: endsWith_def dataHostUrl_def
        executeRequestAuthorized_def resolveCredentials_def loadCredentials_def
        exampleApi_def exampleStorage_def exampleCredentials_def exampleWorld_def
        dispatch_def isAuthFailure_def dispatched_def)
qed

text \<open>
  C2 as stated fails: for the url \<open>/currency/btc\<close> and the payload \<open>{page: 1}\<close>, which has
  no binary value, the one request that reaches the data host has the body kind form, not
  JSON, and the method GET, not POST.
\<close>

theorem invoke_json_post_counterexample:
  "\<not> containsBinary [(''page'', VNumber 1)]
   \<and> map (\<lambda>(req, tok). (httpMethod req, bodyKind req))
       (dispatched (snd (snd (invoke exampleApi ''/currency/btc'' (Some [(''page'', VNumber 1)]) exampleWorld))))
     = [(''GET'', BodyForm)]
   \<and> (''GET'', BodyForm) \<noteq> (''POST'', BodyJson)"
  by (simp add: containsBinary_def invoke_def endsWith_def Let_def RequestBuilder_def
      acceptJson_def withMethod_def withFormData_def
      executeRequestAuthorized_def resolveCredentials_def loadCredentials_def
      exampleApi_def exampleStorage_def exampleCredentials_def exampleWorld_def
      dispatch_def isAuthFailure_def dispatched_def)

text \<open>
  C8. For every url that ends with \<open>currency/btc\<close> and every payload without a binary
  value (also when no payload is given), \<open>invoke\<close> hands the executor a request with the
  method GET. For any other url the method is POST. The rest of the request is the same in
  both cases: JSON response parsing, and the payload, when given, as a URL-form body.
\<close>

theorem invoke_currency_btc_get:
  "endsWith u ''currency/btc'' \<Longrightarrow> \<not> containsBinary pl \<Longrightarrow> \<not> endsWith u' ''currency/btc'' \<Longrightarrow>
   invoke api u (Some pl) w =
     executeRequestAuthorized
       \<lparr>url = dataHostUrl w u, httpMethod = ''GET'', acceptKind = AcceptJson,
        bodyKind = BodyForm, body = Some (VObject pl), urlParams = []\<rparr>
       (apiConfiguration api) (credentialStorage api) w
   \<and> invoke api u None w =
     executeRequestAuthorized
       \<lparr>url = dataHostUrl w u, httpMethod = ''GET'', acceptKind = AcceptJson,
        bodyKind = BodyNone, body = None, urlParams = []\<rparr>
       (apiConfiguration api) (credentialStorage api) w
   \<and> invoke api u' (Some pl) w =
     executeRequestAuthorized
       \<lparr>url = dataHostUrl w u', httpMethod = ''POST'', acceptKind = AcceptJson,
        bodyKind = BodyForm, body = Some (VObject pl), urlParams = []\<rparr>
       (apiConfiguration api) (credentialStorage api) w
   \<and> invoke api u' None w =
     executeRequestAuthorized
       \<lparr>url = dataHostUrl w u', httpMethod = ''POST'', acceptKind = AcceptJson,
        bodyKind = BodyNone, body = None, urlParams = []\<rparr>
       (apiConfiguration api) (credentialStorage api) w"
  by (simp add: invoke_def RequestBuilder_def acceptJson_def withMethod_def withFormData_def)

theorem invoke_currency_btc_get_witness:
  "endsWith ''/currency/btc'' ''currency/btc''
   \<and> \<not> containsBinary [(''response'', VString ''text'')]
   \<and> \<not> endsWith ''/currency/list'' ''currency/btc''
   \<and> map fst (dispatched (snd (snd (invoke exampleApi ''/currency/btc'' (Some [(''response'', VString ''text'')]) exampleWorld))))
     = [\<lparr>url = ''https://api.paxful.com/currency/btc'', httpMethod = ''GET'', acceptKind = AcceptJson,
         bodyKind = BodyForm, body = Some (VObject [(''response'', VString ''text'')]), urlParams = []\<rparr>]
   \<and> map fst (dispatched (snd (snd (invoke exampleApi ''/currency/list'' (Some [(''response'', VString ''text'')]) exampleWorld))))
     = [\<lparr>url = ''https://api.paxful.com/currency/list'', httpMethod = ''POST'', acceptKind = AcceptJson,
         bodyKind = BodyForm, body = Some (VObject [(''response'', VString ''text'')]), urlParams = []\<rparr>]"
proof -
  have btc: "endsWith ''/currency/btc'' ''currency/btc''"
    by (simp add: endsWith_def)
  have nobin: "\<not> containsBinary [(''response'', VString ''text'')]"
    by (simp add: containsBinary_def)
  have other: "\<not> endsWith ''/currency/list'' ''currency/btc''"
    by (simp add: endsWith_def)
  show ?thesis
    using btc nobin other invoke_currency_btc_get [OF btc nobin other, of exampleApi exampleWorld]
    by (simp add: dataHostUrl_def
        executeRequestAuthorized_def resolveCredentials_def loadCredentials_def
        exampleApi_def exampleStorage_def exampleCredentials_def exampleWorld_def
        dispatch_def isAuthFailure_def dispatched_def)
qed

subsection \<open>The other verbs\<close>

text \<open>
  C7. Every verb hands the executor, with the configuration and the storage of the
  instance, a request for the data host's url of this shape: \<open>get\<close> has the method GET,
  JSON response parsing, the given url parameters (none when left out) and no body;
  \<open>post\<close>, \<open>put\<close>, \<open>patch\<close> and \<open>delete\<close> have their own method, JSON response parsing
  and the optional payload as JSON body; \<open>download\<close> has binary response parsing, no body
  and the given method, GET when left out.
\<close>

theorem verbs_build_advertised_requests:
  "get api u params w =
     executeRequestAuthorized
       \<lparr>url = dataHostUrl w u, httpMethod = ''GET'', acceptKind = AcceptJson, bodyKind = BodyNone,
        body = None, urlParams = (case params of None \<Rightarrow> [] | Some ps \<Rightarrow> ps)\<rparr>
       (apiConfiguration api) (credentialStorage api) w
   \<and> post api u json w =
     executeRequestAuthorized
       \<lparr>url = dataHostUrl w u, httpMethod = ''POST'', acceptKind = AcceptJson, bodyKind = BodyJson,
        body = json, urlParams = []\<rparr>
       (apiConfiguration api) (credentialStorage api) w
   \<and> put api u json w =
     executeRequestAuthorized
       \<lparr>url = dataHostUrl w u, httpMethod = ''PUT'', acceptKind = AcceptJson, bodyKind = BodyJson,
        body = json, urlParams = []\<rparr>
       (apiConfiguration api) (credentialStorage api) w
   \<and> patch api u json w =
     executeRequestAuthorized
       \<lparr>url = dataHostUrl w u, httpMethod = ''PATCH'', acceptKind = AcceptJson, bodyKind = BodyJson,
        body = json, urlParams = []\<rparr>
       (apiConfiguration api) (credentialStorage api) w
   \<and> delete api u json w =
     executeRequestAuthorized
       \<lparr>url = dataHostUrl w u, httpMethod = ''DELETE'', acceptKind = AcceptJson, bodyKind = BodyJson,
        body = json, urlParams = []\<rparr>
       (apiConfiguration api) (credentialStorage api) w
   \<and> download api u m w =
     executeRequestAuthorized
       \<lparr>url = dataHostUrl w u, httpMethod = (case m of None \<Rightarrow> ''GET'' | Some x \<Rightarrow> x),
        acceptKind = AcceptBinary, bodyKind = BodyNone, body = None, urlParams = []\<rparr>
       (apiConfiguration api) (credentialStorage api) w"
  by (simp add: get_def post_def put_def patch_def delete_def download_def invokeJsonMethod_def
      RequestBuilder_def acceptJson_def acceptBinary_def withMethod_def withUrlParams_def
      withJsonData_def)

theorem verbs_build_advertised_requests_witness:
  "map fst (dispatched (snd (snd (get exampleApi ''/offer/all'' (Some [(''type'', VString ''buy'')]) exampleWorld))))
     = [\<lparr>url = ''https://api.paxful.com/offer/all'', httpMethod = ''GET'', acceptKind = AcceptJson,
         bodyKind = BodyNone, body = None, urlParams = [(''type'', VString ''buy'')]\<rparr>]
   \<and> map fst (dispatched (snd (snd (put exampleApi ''/offer/1'' (Some (VObject [(''margin'', VNumber 2)])) exampleWorld))))
     = [\<lparr>url = ''https://api.paxful.com/offer/1'', httpMethod = ''PUT'', acceptKind = AcceptJson,
         bodyKind = BodyJson, body = Some (VObject [(''margin'', VNumber 2)]), urlParams = []\<rparr>]
   \<and> fst (download exampleApi ''/trade/1/receipt'' None exampleWorld) = Inr (BinaryResponse 200 ''{}'')"
  using verbs_build_advertised_requests
    [of exampleApi "''/offer/all''" "Some [(''type'', VString ''buy'')]" exampleWorld]
    verbs_build_advertised_requests
    [of exampleApi "''/offer/1''" _ exampleWorld "Some (VObject [(''margin'', VNumber 2)])"]
    verbs_build_advertised_requests
    [of exampleApi "''/trade/1/receipt''" _ exampleWorld _ None]
  by (simp add: dataHostUrl_def parseResponse_def
      executeRequestAuthorized_def resolveCredentials_def loadCredentials_def
      exampleApi_def exampleStorage_def exampleCredentials_def exampleWorld_def
      dispatch_def isAuthFailure_def dispatched_def)

subsection \<open>Acquiring and saving credentials\<close>

text \<open>
  C5. When the Token Acquirer issues a credentials record for the authorization code
  (\<open>impersonatedCredentials\<close>) or for the client (\<open>myCredentials\<close>), the call returns that
  record, and a storage supplied at construction receives exactly one \<open>saveCredentials\<close>
  call, with that record, after which it holds the record; without a storage nothing is
  saved.
\<close>

theorem credentials_saved_and_returned:
  "(retrieveImpersonatedCredentials w (apiConfiguration api) code = Inr c \<longrightarrow>
      impersonatedCredentials api code w =
        (Inr c, map_option (saveCredentials c) (credentialStorage api)))
   \<and> (retrievePersonalCredentials w (apiConfiguration api) = Inr c \<longrightarrow>
      myCredentials api w = (Inr c, map_option (saveCredentials c) (credentialStorage api)))
   \<and> loadCredentials (saveCredentials c st) = Some c
   \<and> saveCalls (saveCredentials c st) = saveCalls st @ [c]"
  by (simp add: impersonatedCredentials_def myCredentials_def saveToken_def saveCredentials_def
      loadCredentials_def split: option.splits)

theorem credentials_saved_and_returned_witness:
  "retrieveImpersonatedCredentials exampleWorld (apiConfiguration exampleApi) ''good-code''
     = Inr exampleCredentials
   \<and> retrievePersonalCredentials exampleWorld (apiConfiguration exampleApi) = Inr exampleCredentials
   \<and> impersonatedCredentials exampleApi ''good-code'' exampleWorld =
       (Inr exampleCredentials,
        Some \<lparr>contents = Some exampleCredentials, saveCalls = [exampleCredentials]\<rparr>)
   \<and> myCredentials (exampleApi\<lparr>credentialStorage := None\<rparr>) exampleWorld =
       (Inr exampleCredentials, None)"
  using credentials_saved_and_returned
      [of exampleWorld exampleApi "''good-code''" exampleCredentials]
    credentials_saved_and_returned
      [of exampleWorld "exampleApi\<lparr>credentialStorage := None\<rparr>" _ exampleCredentials]
  by (simp add: exampleWorld_def exampleApi_def exampleConfiguration_def exampleStorage_def
      saveCredentials_def)

text \<open>
  C10. When the token acquisition behind \<open>impersonatedCredentials\<close> or \<open>myCredentials\<close>
  fails, the call fails with the same error, and the credential storage is as it was:
  \<open>saveCredentials\<close> was not called and the stored credentials are unchanged.
\<close>

theorem failed_acquisition_saves_nothing:
  "(retrieveImpersonatedCredentials w (apiConfiguration api) code = Inl e \<longrightarrow>
      impersonatedCredentials api code w = (Inl e, credentialStorage api))
   \<and> (retrievePersonalCredentials w (apiConfiguration api) = Inl e \<longrightarrow>
      myCredentials api w = (Inl e, credentialStorage api))"
  by (simp add: impersonatedCredentials_def myCredentials_def saveToken_def
      split: option.splits)

theorem failed_acquisition_saves_nothing_witness:
  "retrieveImpersonatedCredentials exampleWorld (apiConfiguration exampleApi) ''stale-code''
     = Inl AuthExchangeError
   \<and> impersonatedCredentials exampleApi ''stale-code'' exampleWorld =
       (Inl AuthExchangeError, Some exampleStorage)
   \<and> retrievePersonalCredentials exampleWorld
       (apiConfiguration (exampleApi\<lparr>apiConfiguration := exampleConfiguration\<lparr>clientSecret := ''wrong''\<rparr>\<rparr>))
     = Inl AuthExchangeError
   \<and> myCredentials (exampleApi\<lparr>apiConfiguration := exampleConfiguration\<lparr>clientSecret := ''wrong''\<rparr>\<rparr>)
       exampleWorld = (Inl AuthExchangeError, Some exampleStorage)"
  using failed_acquisition_saves_nothing
      [of exampleWorld exampleApi "''stale-code''" AuthExchangeError]
    failed_acquisition_saves_nothing
      [of exampleWorld
        "exampleApi\<lparr>apiConfiguration := exampleConfiguration\<lparr>clientSecret := ''wrong''\<rparr>\<rparr>"
        _ AuthExchangeError]
  by (simp add: exampleWorld_def exampleApi_def exampleConfiguration_def)

subsection \<open>Construction\<close>

text \<open>
  C6. After construction: a scope that was absent or empty is \<open>["profile", "email"]\<close>; an
  OAuth host setting that was unset or empty is \<open>https://accounts.paxful.com\<close>, a data host
  setting that was unset or empty is \<open>https://api.paxful.com\<close>; a host setting that was
  set to a non-empty value is unchanged. (A non-empty scope, the other fields of the
  configuration and the storage are kept as supplied.)
\<close>

theorem constructor_defaults:
  "constructor configuration storage w = (api, w') \<Longrightarrow>
   ((scope configuration = None \<or> scope configuration = Some []) \<longrightarrow>
      scope (apiConfiguration api) = Some [''profile'', ''email''])
   \<and> ((PAXFUL_OAUTH_HOST (env w) = None \<or> PAXFUL_OAUTH_HOST (env w) = Some []) \<longrightarrow>
      PAXFUL_OAUTH_HOST (env w') = Some ''https://accounts.paxful.com'')
   \<and> ((PAXFUL_DATA_HOST (env w) = None \<or> PAXFUL_DATA_HOST (env w) = Some []) \<longrightarrow>
      PAXFUL_DATA_HOST (env w') = Some ''https://api.paxful.com'')
   \<and> (\<forall>h. PAXFUL_OAUTH_HOST (env w) = Some h \<and> h \<noteq> [] \<longrightarrow> PAXFUL_OAUTH_HOST (env w') = Some h)
   \<and> (\<forall>h. PAXFUL_DATA_HOST (env w) = Some h \<and> h \<noteq> [] \<longrightarrow> PAXFUL_DATA_HOST (env w') = Some h)
   \<and> (\<forall>sc. scope configuration = Some sc \<and> sc \<noteq> [] \<longrightarrow> apiConfiguration api = configuration)
   \<and> apiConfiguration api = configuration\<lparr>scope := scope (apiConfiguration api)\<rparr>
   \<and> credentialStorage api = storage"
  by (auto simp: constructor_def validateAndSetDefaultParameters_def falsy_def nullish_def
      Let_def split: option.splits if_splits)

theorem constructor_defaults_witness:
  "scope exampleConfiguration = None
   \<and> scope (apiConfiguration (fst (constructor exampleConfiguration None
        (exampleWorld\<lparr>env := \<lparr>PAXFUL_OAUTH_HOST = Some ''https://auth.test'', PAXFUL_DATA_HOST = Some []\<rparr>\<rparr>))))
     = Some [''profile'', ''email'']
   \<and> PAXFUL_OAUTH_HOST (env (snd (constructor exampleConfiguration None
        (exampleWorld\<lparr>env := \<lparr>PAXFUL_OAUTH_HOST = Some ''https://auth.test'', PAXFUL_DATA_HOST = Some []\<rparr>\<rparr>))))
     = Some ''https://auth.test''
   \<and> PAXFUL_DATA_HOST (env (snd (constructor exampleConfiguration None
        (exampleWorld\<lparr>env := \<lparr>PAXFUL_OAUTH_HOST = Some ''https://auth.test'', PAXFUL_DATA_HOST = Some []\<rparr>\<rparr>))))
     = Some ''https://api.paxful.com''"
  using constructor_defaults [OF prod.collapse [symmetric], of exampleConfiguration None
      "exampleWorld\<lparr>env := \<lparr>PAXFUL_OAUTH_HOST = Some ''https://auth.test'', PAXFUL_DATA_HOST = Some []\<rparr>\<rparr>"]
  by (simp add: exampleConfiguration_def)

subsection \<open>getProfile\<close>

text \<open>
  C9. Without a credential storage, \<open>getProfile\<close> fails with the error whose message is
  \<open>No credentials storage defined.\<close>, whatever the profile command would do, and leaves
  the world as it was: nothing was sent. With a storage, its outcome is the outcome of the
  profile command run with that storage and the configuration of the instance.
\<close>

theorem getProfile_needs_storage:
  "(credentialStorage api = None \<longrightarrow>
      getProfile getProfileCommand api w =
        (Inl (JsError ''No credentials storage defined.''), None, w))
   \<and> (\<forall>st. credentialStorage api = Some st \<longrightarrow>
         getProfile getProfileCommand api w =
           (case getProfileCommand st (apiConfiguration api) w of
              (r, st', w') \<Rightarrow> (r, Some st', w')))"
  by (simp add: getProfile_def)

theorem getProfile_needs_storage_witness:
  "credentialStorage (exampleApi\<lparr>credentialStorage := None\<rparr>) = None
   \<and> getProfile exampleProfileCommand (exampleApi\<lparr>credentialStorage := None\<rparr>) exampleWorld =
       (Inl (JsError ''No credentials storage defined.''), None, exampleWorld)
   \<and> credentialStorage exampleApi = Some exampleStorage
   \<and> fst (getProfile exampleProfileCommand exampleApi exampleWorld) =
       Inr (Profile (VObject [(''email'', VString ''a@b.c'')]))"
  using getProfile_needs_storage
      [of "exampleApi\<lparr>credentialStorage := None\<rparr>" exampleProfileCommand exampleWorld]
    getProfile_needs_storage [of exampleApi exampleProfileCommand exampleWorld]
  by (simp add: exampleApi_def exampleProfileCommand_def)

subsection \<open>Reauthorization in the executor\<close>

text \<open>
  C3, as the executor of spec 4.3 has it. Take a call whose credentials are not expired, so
  that no refresh precedes the first dispatch, and whose first dispatch is answered 401 or
  403. Then exactly one refresh is performed, with the credentials of the first dispatch.
  When that refresh fails, its error is the result and nothing more is dispatched. When
  it succeeds, the new credentials are persisted and exactly one retry is dispatched, with
  the new access token; a 401 or 403 to the retry makes the call fail with
  \<open>AuthorizationDeniedError\<close>, any other reply is parsed and returned. In every case at
  most two dispatches are performed, never a third.
\<close>

theorem auth_failure_refresh_retry_once:
  assumes run: "executeRequestAuthorized req config storage w = (r, storage', w')"
    and creds: "resolveCredentials storage = Some c"
    and valid: "now w < expiresAt c"
    and first: "dataHost w (trace w) req (accessToken c) = Reply status raw"
    and denied: "isAuthFailure status"
  shows
    "refreshed w' = refreshed w @ [c]
     \<and> (\<forall>e. refresh w config c = Inl e \<longrightarrow>
          r = Inl e \<and> storage' = storage
          \<and> trace w' = trace w @ [Dispatch req (accessToken c), Refresh c])
     \<and> (\<forall>c'. refresh w config c = Inr c' \<longrightarrow>
          trace w' = trace w @ [Dispatch req (accessToken c), Refresh c, Dispatch req (accessToken c')]
          \<and> storage' = map_option (saveCredentials c') storage
          \<and> (\<forall>status' raw'.
                dataHost w (trace w @ [Dispatch req (accessToken c), Refresh c]) req (accessToken c')
                  = Reply status' raw' \<longrightarrow>
                (isAuthFailure status' \<longrightarrow> r = Inl AuthorizationDeniedError)
                \<and> (\<not> isAuthFailure status' \<longrightarrow> r = parseResponse w req status' raw')))
     \<and> length (dispatched w') \<le> length (dispatched w) + 2"
proof -
  let ?w1 = "w\<lparr>trace := trace w @ [Dispatch req (accessToken c)]\<rparr>"
  have step: "executeRequestAuthorized req config storage w =
      refreshThenDispatch req config c storage ?w1"
    using creds valid first denied
    by (simp add: executeRequestAuthorized_def dispatch_def)
  show ?thesis
  proof (cases "refresh w config c")
    case (Inl e)
    then have "(r, storage', w') = (Inl e, storage, ?w1\<lparr>trace := trace ?w1 @ [Refresh c]\<rparr>)"
      using run step by (simp add: refreshThenDispatch_def refreshAndPersist_def)
    then show ?thesis
      using Inl by (simp add: refreshed_def dispatched_def)
  next
    case (Inr c')
    let ?w2 = "?w1\<lparr>trace := trace ?w1 @ [Refresh c]\<rparr>"
    have final: "(r, storage', w') =
        dispatchFinal req c' (map_option (saveCredentials c') storage) ?w2"
      using run step Inr by (simp add: refreshThenDispatch_def refreshAndPersist_def)
    show ?thesis
    proof (cases "dataHost w (trace w @ [Dispatch req (accessToken c), Refresh c]) req (accessToken c')")
      case Unreachable
      then show ?thesis
        using final Inr
        by (simp add: dispatchFinal_def dispatch_def refreshed_def dispatched_def)
    next
      case (Reply status' raw')
      then show ?thesis
        using final Inr
        by (simp add: dispatchFinal_def dispatch_def refreshed_def dispatched_def
            parseResponse_def split: if_splits AcceptKind.splits)
    qed
  qed
qed

theorem auth_failure_refresh_retry_once_witness:
  "resolveCredentials (Some exampleStorage) = Some exampleCredentials
   \<and> now denyingWorld < expiresAt exampleCredentials
   \<and> dataHost denyingWorld (trace denyingWorld) exampleRequest (accessToken exampleCredentials)
       = Reply 401 []
   \<and> isAuthFailure 401
   \<and> fst (executeRequestAuthorized exampleRequest exampleConfiguration (Some exampleStorage) denyingWorld)
       = Inl AuthorizationDeniedError
   \<and> trace (snd (snd (executeRequestAuthorized exampleRequest exampleConfiguration
         (Some exampleStorage) denyingWorld)))
       = [Dispatch exampleRequest ''token-1'', Refresh exampleCredentials,
          Dispatch exampleRequest ''token-2'']"
proof -
  let ?run = "executeRequestAuthorized exampleRequest exampleConfiguration (Some exampleStorage) denyingWorld"
  let ?c' = "exampleCredentials\<lparr>accessToken := ''token-2'', expiresAt := 5000\<rparr>"
  have run: "?run = (fst ?run, fst (snd ?run), snd (snd ?run))"
    by simp
  have creds: "resolveCredentials (Some exampleStorage) = Some exampleCredentials"
    by (simp add: resolveCredentials_def loadCredentials_def exampleStorage_def)
  have valid: "now denyingWorld < expiresAt exampleCredentials"
    by (simp add: denyingWorld_def exampleWorld_def exampleCredentials_def)
  have first: "dataHost denyingWorld (trace denyingWorld) exampleRequest (accessToken exampleCredentials)
      = Reply 401 []"
    by (simp add: denyingWorld_def)
  have denied: "isAuthFailure 401"
    by (simp add: isAuthFailure_def)
  have issued: "refresh denyingWorld exampleConfiguration exampleCredentials = Inr ?c'"
    by (simp add: denyingWorld_def exampleWorld_def exampleCredentials_def)
  have again: "dataHost denyingWorld
      (trace denyingWorld @ [Dispatch exampleRequest (accessToken exampleCredentials), Refresh exampleCredentials])
      exampleRequest (accessToken ?c') = Reply 401 []"
    by (simp add: denyingWorld_def)
  have empty: "trace denyingWorld = []"
    by (simp add: denyingWorld_def exampleWorld_def)
  have tok: "accessToken exampleCredentials = ''token-1''" "accessToken ?c' = ''token-2''"
    by (simp_all add: exampleCredentials_def)
  from auth_failure_refresh_retry_once [OF run creds valid first denied]
  have all: "\<forall>c'. refresh denyingWorld exampleConfiguration exampleCredentials = Inr c' \<longrightarrow>
          trace (snd (snd ?run)) = trace denyingWorld @
            [Dispatch exampleRequest (accessToken exampleCredentials), Refresh exampleCredentials,
             Dispatch exampleRequest (accessToken c')]
          \<and> fst (snd ?run) = map_option (saveCredentials c') (Some exampleStorage)
          \<and> (\<forall>status' raw'.
                dataHost denyingWorld
                  (trace denyingWorld @ [Dispatch exampleRequest (accessToken exampleCredentials), Refresh exampleCredentials])
                  exampleRequest (accessToken c') = Reply status' raw' \<longrightarrow>
                (isAuthFailure status' \<longrightarrow> fst ?run = Inl AuthorizationDeniedError)
                \<and> (\<not> isAuthFailure status' \<longrightarrow>
                     fst ?run = parseResponse denyingWorld exampleRequest status' raw'))"
    by blast
  from all issued again denied
  have "fst ?run = Inl AuthorizationDeniedError"
    by blast
  moreover from all issued
  have "trace (snd (snd ?run)) =
      [Dispatch exampleRequest ''token-1'', Refresh exampleCredentials, Dispatch exampleRequest ''token-2'']"
    unfolding empty tok by simp
  ultimately show ?thesis
    using creds valid first denied by simp
qed

text \<open>
  C3 as stated fails when the refresh itself fails. The stored credentials carry no
  refresh token and are not expired; the host answers the dispatch 401. The refresh is
  attempted once and fails, the call ends with \<open>AuthRefreshError\<close>, and the only dispatch
  is the first one: no retry was dispatched.
\<close>

theorem auth_failure_retry_counterexample:
  "resolveCredentials (Some accessOnlyStorage) = Some accessOnlyCredentials
   \<and> now denyingWorld < expiresAt accessOnlyCredentials
   \<and> dataHost denyingWorld (trace denyingWorld) exampleRequest (accessToken accessOnlyCredentials)
       = Reply 401 []
   \<and> isAuthFailure 401
   \<and> fst (executeRequestAuthorized exampleRequest exampleConfiguration (Some accessOnlyStorage) denyingWorld)
       = Inl AuthRefreshError
   \<and> trace (snd (snd (executeRequestAuthorized exampleRequest exampleConfiguration
         (Some accessOnlyStorage) denyingWorld)))
       = [Dispatch exampleRequest ''token-1'', Refresh accessOnlyCredentials]
   \<and> length (dispatched (snd (snd (executeRequestAuthorized exampleRequest exampleConfiguration
         (Some accessOnlyStorage) denyingWorld)))) = 1"
  by (simp add: executeRequestAuthorized_def resolveCredentials_def loadCredentials_def
      refreshThenDispatch_def refreshAndPersist_def dispatch_def isAuthFailure_def
      dispatched_def accessOnlyStorage_def accessOnlyCredentials_def exampleCredentials_def
      denyingWorld_def exampleWorld_def)

end
